theory Spec2Isabelle
  imports Complex_Main
begin

section \<open>The pricing engine of \<^verbatim>\<open>src/main.py\<close>\<close>

text \<open>
  The development embeds the class \<^verbatim>\<open>DynamicPricingEngine\<close> and the part of the
  storage layer that \<^verbatim>\<open>calculate\<close> touches.

  Numbers. Python's \<^verbatim>\<open>float\<close> is modelled by \<^typ>\<open>real\<close>: every product, quotient and
  comparison is exact, and \<^verbatim>\<open>round(x, 2)\<close> is rounding of the exact value to two decimals,
  ties to the even neighbour. Binary representation error, infinities and NaN are outside
  the model. Python's \<^verbatim>\<open>int\<close> is \<^typ>\<open>int\<close>.

  Names. A leading underscore is dropped (\<^verbatim>\<open>_factor\<close> is \<open>factor\<close>). The keys of the
  returned dictionary carry the prefix \<open>q_\<close> and the columns of \<^verbatim>\<open>PricingHistory\<close> the
  prefix \<open>h_\<close>, because the request already owns the plain field names.
\<close>

subsection \<open>Errors\<close>

datatype error =
    ZeroDivisionError
  | TypeError
  | IndexError
  | StorageWriteFailure

subsection \<open>Data\<close>

text \<open>
  \<^verbatim>\<open>PricingRequest\<close>: the two \<^verbatim>\<open>Optional\<close> fields may hold \<^verbatim>\<open>None\<close>.
\<close>

record PricingRequest =
  product_id :: string
  cost_price :: real
  demand_score :: int
  inventory :: int
  competitor_price :: real
  customer_segment :: "string option"
  seasonality_factor :: "real option"

text \<open>The dictionary the three calculators return.\<close>

record PriceData =
  q_product_id :: string
  q_dynamic_price :: real
  q_base_price :: real
  q_strategy :: string

text \<open>
  A row of \<^verbatim>\<open>pricing_history\<close>. The columns \<^verbatim>\<open>id\<close> and \<^verbatim>\<open>timestamp\<close> are filled in by the
  storage engine when the row is inserted and are not part of the model; the two columns
  with a default of \<^verbatim>\<open>0.0\<close> are.
\<close>

record PricingHistory =
  h_product_id :: string
  h_original_price :: real
  h_dynamic_price :: real
  h_demand_score :: int
  h_inventory :: int
  h_competitor_price :: real
  h_strategy_used :: string
  h_conversion_rate :: real
  h_revenue_generated :: real

subsection \<open>Rounding to two decimals\<close>

definition round_half_even :: "real \<Rightarrow> int" where
  "round_half_even x =
     (let n = \<lfloor>x\<rfloor>; r = x - of_int n
      in if r < 1 / 2 then n
         else if 1 / 2 < r then n + 1
         else if even n then n else n + 1)"

definition round2 :: "real \<Rightarrow> real" where
  "round2 x = of_int (round_half_even (x * 100)) / 100"

subsection \<open>Markup table and factor resolver\<close>

definition markups :: "int \<rightharpoonup> real" where
  "markups =
     [1 \<mapsto> 0.15, 2 \<mapsto> 0.18, 3 \<mapsto> 0.20, 4 \<mapsto> 0.25, 5 \<mapsto> 0.30,
      6 \<mapsto> 0.35, 7 \<mapsto> 0.42, 8 \<mapsto> 0.50, 9 \<mapsto> 0.60, 10 \<mapsto> 0.75]"

definition get_base_markup :: "int \<Rightarrow> real" where
  "get_base_markup ds = (case markups ds of Some m \<Rightarrow> m | None \<Rightarrow> 0.30)"

text \<open>
  The \<^verbatim>\<open>for\<close> loop of \<^verbatim>\<open>_factor\<close> over \<^verbatim>\<open>zip(thresholds, factors)\<close>: \<open>Some f\<close> is the
  \<^verbatim>\<open>return f\<close> inside the loop, \<open>None\<close> is the loop running to its end.
\<close>

fun factor_loop :: "'a::linorder \<Rightarrow> ('a \<times> 'b) list \<Rightarrow> 'b option" where
  "factor_loop v [] = None"
| "factor_loop v ((th, f) # rest) = (if v \<le> th then Some f else factor_loop v rest)"

text \<open>After the loop \<^verbatim>\<open>factors[-1]\<close> is read, which raises on an empty list.\<close>

definition factor :: "'a::linorder \<Rightarrow> 'a list \<Rightarrow> 'b list \<Rightarrow> error + 'b" where
  "factor v thresholds factors =
     (case factor_loop v (zip thresholds factors) of
        Some f \<Rightarrow> Inr f
      | None \<Rightarrow> (if factors = [] then Inl IndexError else Inr (last factors)))"

subsection \<open>The three calculators\<close>

definition segments :: "string \<rightharpoonup> real" where
  "segments =
     [''premium'' \<mapsto> 1.2, ''standard'' \<mapsto> 1.0, ''budget'' \<mapsto> 0.85, ''loyalty'' \<mapsto> 0.90]"

text \<open>
  The statements of \<^verbatim>\<open>_calculate_default_price\<close> in their order: the division raises on a
  zero divisor before the product with \<^verbatim>\<open>seasonality_factor\<close> is formed, and that product
  raises when the field is \<^verbatim>\<open>None\<close>.
\<close>

definition calculate_default_price :: "PricingRequest \<Rightarrow> error + PriceData" where
  "calculate_default_price req =
     (let base = cost_price req * (1 + get_base_markup (demand_score req)) in
      (case factor (demand_score req) [3, 7] [0.85, 1.0, 1.25] of
         Inl e \<Rightarrow> Inl e
       | Inr demand_factor \<Rightarrow>
      (case factor (inventory req) [10, 100] [1.15, 1.0, 0.90] of
         Inl e \<Rightarrow> Inl e
       | Inr inv_factor \<Rightarrow>
      (if competitor_price req = 0 then Inl ZeroDivisionError
       else
        (let comp_ratio = base / competitor_price req;
             comp_factor = (if comp_ratio > 1.1 then 0.95
                            else (if comp_ratio < 0.9 then 1.05 else 1.0));
             seg_factor = (case customer_segment req of
                             None \<Rightarrow> 1.0
                           | Some s \<Rightarrow> (case segments s of Some f \<Rightarrow> f | None \<Rightarrow> 1.0))
         in (case seasonality_factor req of
               None \<Rightarrow> Inl TypeError
             | Some season \<Rightarrow>
                 (let price = base * demand_factor * inv_factor * comp_factor * season * seg_factor;
                      price' = max (cost_price req * 1.1) (min price (competitor_price req * 1.2))
                  in Inr \<lparr>q_product_id = product_id req,
                           q_dynamic_price = round2 price',
                           q_base_price = round2 base,
                           q_strategy = ''default''\<rparr>)))))))"

definition calculate_aggressive_price :: "PricingRequest \<Rightarrow> error + PriceData" where
  "calculate_aggressive_price req =
     (let base = cost_price req * (1 + get_base_markup (demand_score req) + 0.1) in
      case factor (demand_score req) [3, 7] [0.9, 1.1, 1.4] of
        Inl e \<Rightarrow> Inl e
      | Inr demand_factor \<Rightarrow>
          let price = base * demand_factor;
              price' = max (cost_price req * 1.05) (min price (competitor_price req * 1.1))
          in Inr \<lparr>q_product_id = product_id req,
                   q_dynamic_price = round2 price',
                   q_base_price = round2 base,
                   q_strategy = ''aggressive''\<rparr>)"

definition calculate_conservative_price :: "PricingRequest \<Rightarrow> error + PriceData" where
  "calculate_conservative_price req =
     (let base = cost_price req * (1 + get_base_markup (demand_score req) - 0.05) in
      case factor (demand_score req) [3, 7] [0.8, 0.95, 1.15] of
        Inl e \<Rightarrow> Inl e
      | Inr demand_factor \<Rightarrow>
          let price = base * demand_factor;
              price' = max (cost_price req * 1.15) (min price (competitor_price req * 0.95))
          in Inr \<lparr>q_product_id = product_id req,
                   q_dynamic_price = round2 price',
                   q_base_price = round2 base,
                   q_strategy = ''conservative''\<rparr>)"

subsection \<open>Strategy registry\<close>

definition price_adjustment_strategies ::
  "string \<rightharpoonup> (PricingRequest \<Rightarrow> error + PriceData)" where
  "price_adjustment_strategies =
     [''default'' \<mapsto> calculate_default_price,
      ''aggressive'' \<mapsto> calculate_aggressive_price,
      ''conservative'' \<mapsto> calculate_conservative_price]"

subsection \<open>Storage\<close>

text \<open>
  The database as \<^verbatim>\<open>calculate\<close> sees it: the committed rows of \<^verbatim>\<open>pricing_history\<close>, oldest
  first, and the answers the storage engine will give to the commits still to come
  (\<open>True\<close>: the commit goes through, \<open>False\<close>: it raises). The second component is the
  environment's input; an exhausted list answers \<open>True\<close>.

  A session stages the objects given to \<^verbatim>\<open>db.add\<close>. \<^verbatim>\<open>db.commit\<close> either writes all staged
  rows or raises and writes none; \<^verbatim>\<open>db.close\<close>, which \<^verbatim>\<open>get_db\<close> runs in its \<^verbatim>\<open>finally\<close>
  clause on every way out of the \<^verbatim>\<open>with\<close> block, drops what is still staged.
\<close>

record database =
  pricing_history :: "PricingHistory list"
  commit_answers :: "bool list"

record Session =
  staged :: "PricingHistory list"

definition SessionLocal :: Session where
  "SessionLocal = \<lparr>staged = []\<rparr>"

definition db_add :: "PricingHistory \<Rightarrow> Session \<Rightarrow> Session" where
  "db_add row db = db\<lparr>staged := staged db @ [row]\<rparr>"

definition db_commit :: "Session \<Rightarrow> database \<Rightarrow> (error + Session) \<times> database" where
  "db_commit db store =
     (case commit_answers store of
        [] \<Rightarrow> (Inr (db\<lparr>staged := []\<rparr>),
               store\<lparr>pricing_history := pricing_history store @ staged db\<rparr>)
      | ok # later \<Rightarrow>
          if ok
          then (Inr (db\<lparr>staged := []\<rparr>),
                store\<lparr>pricing_history := pricing_history store @ staged db,
                      commit_answers := later\<rparr>)
          else (Inl StorageWriteFailure, store\<lparr>commit_answers := later\<rparr>))"

subsection \<open>The entry point\<close>

text \<open>
  \<^verbatim>\<open>calculate\<close> returns what the caller receives (the quote, or the exception that reached
  it) together with the database afterwards. Nothing in its body catches an exception: a
  failing calculator ends the call before the \<^verbatim>\<open>with\<close> block, and a failing commit leaves
  the block through \<^verbatim>\<open>get_db\<close>, which closes the session and re-raises.
\<close>

text \<open>
  The first line of \<^verbatim>\<open>calculate\<close>: the registry's \<^verbatim>\<open>get\<close> with the default calculator as
  the value for a missing key.
\<close>

definition calculation_method :: "string \<Rightarrow> PricingRequest \<Rightarrow> error + PriceData" where
  "calculation_method strategy =
     (case price_adjustment_strategies strategy of
        Some m \<Rightarrow> m
      | None \<Rightarrow> calculate_default_price)"

text \<open>The object built by the call \<^verbatim>\<open>PricingHistory(...)\<close> inside the \<^verbatim>\<open>with\<close> block.\<close>

definition new_history :: "PricingRequest \<Rightarrow> PriceData \<Rightarrow> string \<Rightarrow> PricingHistory" where
  "new_history req price_data strategy =
     \<lparr>h_product_id = product_id req,
      h_original_price = q_base_price price_data,
      h_dynamic_price = q_dynamic_price price_data,
      h_demand_score = demand_score req,
      h_inventory = inventory req,
      h_competitor_price = competitor_price req,
      h_strategy_used = strategy,
      h_conversion_rate = 0,
      h_revenue_generated = 0\<rparr>"

definition calculate ::
  "PricingRequest \<Rightarrow> string \<Rightarrow> database \<Rightarrow> (error + PriceData) \<times> database" where
  "calculate req strategy store =
     (case calculation_method strategy req of
        Inl e \<Rightarrow> (Inl e, store)
      | Inr price_data \<Rightarrow>
          (let db = db_add (new_history req price_data strategy) SessionLocal
           in case db_commit db store of
                (outcome, store') \<Rightarrow>
                  (case outcome of
                     Inl e \<Rightarrow> (Inl e, store')
                   | Inr db' \<Rightarrow> (Inr price_data, store'))))"

text \<open>The route \<^verbatim>\<open>/calculate-price\<close> leaves the strategy at its default.\<close>

definition calculate_price :: "PricingRequest \<Rightarrow> database \<Rightarrow> (error + PriceData) \<times> database" where
  "calculate_price request store = calculate request ''default'' store"

subsection \<open>Sample inputs\<close>

text \<open>
  The request of the specification's worked example, the same request with a competitor
  price of zero, and a database with no rows whose commits succeed.
\<close>

definition example_request :: PricingRequest where
  "example_request =
     \<lparr>product_id = ''SKU-1'', cost_price = 10, demand_score = 5, inventory = 50,
      competitor_price = 20, customer_segment = Some ''standard'',
      seasonality_factor = Some 1.0\<rparr>"

definition zero_competitor_request :: PricingRequest where
  "zero_competitor_request = example_request\<lparr>competitor_price := 0\<rparr>"

definition empty_database :: database where
  "empty_database = \<lparr>pricing_history = [], commit_answers = []\<rparr>"

section \<open>Markup table\<close>

lemma markups_outside: "ds < 1 \<or> 10 < ds \<Longrightarrow> markups ds = None"
  by (auto simp: markups_def)

text \<open>
  C7. For each demand score from 1 to 10 the markup is the table's entry
  (0.15, 0.18, 0.20, 0.25, 0.30, 0.35, 0.42, 0.50, 0.60, 0.75); for every other integer
  it is 0.30. The function returns a number on every integer, so no error is possible.
\<close>

theorem get_base_markup_table:
  "get_base_markup 1 = 0.15 \<and> get_base_markup 2 = 0.18 \<and> get_base_markup 3 = 0.20 \<and>
   get_base_markup 4 = 0.25 \<and> get_base_markup 5 = 0.30 \<and> get_base_markup 6 = 0.35 \<and>
   get_base_markup 7 = 0.42 \<and> get_base_markup 8 = 0.50 \<and> get_base_markup 9 = 0.60 \<and>
   get_base_markup 10 = 0.75 \<and>
   (\<forall>ds. ds < 1 \<or> 10 < ds \<longrightarrow> get_base_markup ds = 0.30)"
  by (simp add: get_base_markup_def markups_outside) (simp add: markups_def)

theorem get_base_markup_table_witness:
  "((0::int) < 1 \<or> 10 < (0::int)) \<and> get_base_markup 0 = 0.30 \<and> get_base_markup 11 = 0.30 \<and>
   get_base_markup (- 4) = 0.30 \<and> get_base_markup 7 = 0.42"
  using get_base_markup_table by simp


section \<open>Rounding\<close>











section \<open>The calculators' price bands\<close>

lemma factor_two_thresholds:
  "factor v [a, b] [x, y, z] = Inr (if v \<le> a then x else if v \<le> b then y else z)"
  by (simp add: factor_def)















section \<open>Factor resolver\<close>

lemma factor_loop_first:
  "i < length ps \<Longrightarrow> v \<le> fst (ps ! i) \<Longrightarrow> (\<forall>j<i. \<not> v \<le> fst (ps ! j)) \<Longrightarrow>
   factor_loop v ps = Some (snd (ps ! i))"
proof (induction ps arbitrary: i)
  case Nil
  then show ?case by simp
next
  case (Cons p ps)
  obtain th f where p: "p = (th, f)" by (cases p)
  show ?case
  proof (cases i)
    case 0
    with Cons.prems p show ?thesis by simp
  next
    case (Suc k)
    with Cons.prems have "\<not> v \<le> fst ((p # ps) ! 0)" by blast
    with p have nle: "\<not> v \<le> th" by simp
    from Cons.prems Suc have "k < length ps" "v \<le> fst (ps ! k)" by simp_all
    moreover have "\<forall>j<k. \<not> v \<le> fst (ps ! j)"
    proof (intro allI impI)
      fix j assume "j < k"
      then have "Suc j < i" using Suc by simp
      with Cons.prems(3) have "\<not> v \<le> fst ((p # ps) ! Suc j)" by blast
      then show "\<not> v \<le> fst (ps ! j)" by simp
    qed
    ultimately have "factor_loop v ps = Some (snd (ps ! k))" by (rule Cons.IH)
    with p nle Suc show ?thesis by simp
  qed
qed

lemma factor_loop_none:
  "(\<forall>p\<in>set ps. \<not> v \<le> fst p) \<Longrightarrow> factor_loop v ps = None"
  by (induction ps) auto

text \<open>
  C8. With \<open>N\<close> thresholds and \<open>N + 1\<close> factors, \<open>factor\<close> returns the factor at the
  position of the first threshold, in list order, that the value does not exceed; when
  the value exceeds every threshold it returns the last factor. No ordering of the
  thresholds is assumed.
\<close>

theorem factor_scan_order:
  assumes "length factors = length thresholds + 1"
  shows "(\<forall>i. i < length thresholds \<and> v \<le> thresholds ! i \<and> (\<forall>j<i. \<not> v \<le> thresholds ! j)
              \<longrightarrow> factor v thresholds factors = Inr (factors ! i)) \<and>
         ((\<forall>th\<in>set thresholds. \<not> v \<le> th)
              \<longrightarrow> factor v thresholds factors = Inr (last factors))"
proof (intro conjI allI impI)
  fix i
  assume h: "i < length thresholds \<and> v \<le> thresholds ! i \<and> (\<forall>j<i. \<not> v \<le> thresholds ! j)"
  let ?ps = "zip thresholds factors"
  from h assms have len: "i < length ?ps" by simp
  with h have "v \<le> fst (?ps ! i)" by simp
  moreover have "\<forall>j<i. \<not> v \<le> fst (?ps ! j)"
    using h len by simp
  ultimately have "factor_loop v ?ps = Some (snd (?ps ! i))"
    using len by (intro factor_loop_first) auto
  with len show "factor v thresholds factors = Inr (factors ! i)"
    by (simp add: factor_def)
next
  assume h: "\<forall>th\<in>set thresholds. \<not> v \<le> th"
  have "\<forall>p\<in>set (zip thresholds factors). \<not> v \<le> fst p"
    using h by (auto dest: set_zip_leftD)
  then have "factor_loop v (zip thresholds factors) = None"
    by (rule factor_loop_none)
  moreover from assms have "factors \<noteq> []" by auto
  ultimately show "factor v thresholds factors = Inr (last factors)"
    by (simp add: factor_def)
qed

text \<open>The theorem on the unsorted thresholds 7, 3 and on the engine's 3, 7.\<close>

theorem factor_scan_order_witness:
  "length [10, 20, 30 :: int] = length [7, 3 :: int] + 1 \<and>
   factor (2::int) [7, 3] [10, 20, 30 :: int] = Inr 10 \<and>
   factor (5::int) [3, 7] [10, 20, 30 :: int] = Inr 20 \<and>
   factor (9::int) [7, 3] [10, 20, 30 :: int] = Inr 30"
proof -
  have l1: "length [10, 20, 30 :: int] = length [7, 3 :: int] + 1" by simp
  have l2: "length [10, 20, 30 :: int] = length [3, 7 :: int] + 1" by simp
  from factor_scan_order [OF l1, of 2]
  have a: "factor (2::int) [7, 3] [10, 20, 30 :: int] = Inr 10"
    by (elim conjE allE [of _ 0]) simp
  from factor_scan_order [OF l2, of 5]
  have b: "factor (5::int) [3, 7] [10, 20, 30 :: int] = Inr 20"
    by (elim conjE allE [of _ 1]) (simp add: less_Suc_eq)
  from factor_scan_order [OF l1, of 9]
  have c: "factor (9::int) [7, 3] [10, 20, 30 :: int] = Inr 30"
    by simp
  from a b c show ?thesis by simp
qed



section \<open>The entry point and the storage\<close>

lemma calculation_method_unknown:
  "strategy \<notin> {''default'', ''aggressive'', ''conservative''} \<Longrightarrow>
   calculation_method strategy = calculate_default_price"
  by (simp add: calculation_method_def price_adjustment_strategies_def)

lemma calculation_method_default:
  "calculation_method ''default'' = calculate_default_price"
  by (simp add: calculation_method_def price_adjustment_strategies_def)

lemma calculation_method_not_others:
  "strategy \<notin> {''aggressive'', ''conservative''} \<Longrightarrow>
   calculation_method strategy = calculate_default_price"
  by (simp add: calculation_method_def price_adjustment_strategies_def)

lemma calculate_error:
  "calculation_method strategy req = Inl e \<Longrightarrow> calculate req strategy store = (Inl e, store)"
  by (simp add: calculate_def)

lemma calculate_commit_ok:
  assumes "calculation_method strategy req = Inr price_data"
    and "commit_answers store = [] \<or> (\<exists>later. commit_answers store = True # later)"
  shows "calculate req strategy store =
           (Inr price_data,
            store\<lparr>pricing_history := pricing_history store @ [new_history req price_data strategy],
                  commit_answers := tl (commit_answers store)\<rparr>)"
  using assms
  by (auto simp: calculate_def db_commit_def db_add_def SessionLocal_def Let_def)

lemma calculate_commit_fails:
  assumes "calculation_method strategy req = Inr price_data"
    and "commit_answers store = False # later"
  shows "calculate req strategy store =
           (Inl StorageWriteFailure, store\<lparr>commit_answers := later\<rparr>)"
  using assms
  by (simp add: calculate_def db_commit_def db_add_def SessionLocal_def Let_def)

lemma commit_answers_cases:
  "commit_answers store = [] \<or> (\<exists>later. commit_answers store = True # later) \<or>
   (\<exists>later. commit_answers store = False # later)"
  by (cases "commit_answers store") auto

lemma default_zero_iff:
  "calculate_default_price req = Inl ZeroDivisionError \<longleftrightarrow> competitor_price req = 0"
proof (cases "competitor_price req = 0")
  case True
  then show ?thesis
    by (simp add: calculate_default_price_def factor_two_thresholds Let_def split del: if_split)
next
  case False
  then show ?thesis
    by (cases "seasonality_factor req")
       (simp_all add: calculate_default_price_def factor_two_thresholds Let_def
          split del: if_split)
qed

lemma example_default_quote:
  "calculate_default_price example_request =
     Inr \<lparr>q_product_id = ''SKU-1'', q_dynamic_price = 13.65, q_base_price = 13.0,
          q_strategy = ''default''\<rparr>"
  by (simp add: example_request_def calculate_default_price_def factor_two_thresholds
        get_base_markup_def markups_def segments_def round2_def round_half_even_def Let_def)

lemma example_aggressive_quote:
  "calculate_aggressive_price example_request =
     Inr \<lparr>q_product_id = ''SKU-1'', q_dynamic_price = 15.4, q_base_price = 14.0,
          q_strategy = ''aggressive''\<rparr>"
  by (simp add: example_request_def calculate_aggressive_price_def factor_two_thresholds
        get_base_markup_def markups_def round2_def round_half_even_def Let_def)

text \<open>
  C4. A strategy name other than \<^verbatim>\<open>default\<close>, \<^verbatim>\<open>aggressive\<close> and \<^verbatim>\<open>conservative\<close> (the empty
  string included) gives the caller exactly what the name \<^verbatim>\<open>default\<close> gives on the same
  request and database; and when a quote is returned, the row appended to the history
  carries the requested name in \<open>strategy_used\<close>, not \<^verbatim>\<open>default\<close>.
\<close>

theorem unknown_strategy_falls_back:
  assumes "strategy \<notin> {''default'', ''aggressive'', ''conservative''}"
  shows "fst (calculate req strategy store) = fst (calculate req ''default'' store) \<and>
         (\<forall>q. fst (calculate req strategy store) = Inr q \<longrightarrow>
              pricing_history (snd (calculate req strategy store)) =
                pricing_history store @ [new_history req q strategy] \<and>
              h_strategy_used (last (pricing_history (snd (calculate req strategy store))))
                = strategy)"
proof -
  have m: "calculation_method strategy = calculate_default_price"
    using assms by (rule calculation_method_unknown)
  note d = calculation_method_default
  show ?thesis
  proof (cases "calculate_default_price req")
    case (Inl e)
    with m d show ?thesis by (simp add: calculate_error)
  next
    case (Inr pd)
    from commit_answers_cases [of store] show ?thesis
    proof (elim disjE exE)
      assume "commit_answers store = []"
      with Inr m d show ?thesis
        by (simp add: calculate_commit_ok new_history_def)
    next
      fix later assume "commit_answers store = True # later"
      with Inr m d show ?thesis
        by (simp add: calculate_commit_ok new_history_def)
    next
      fix later assume "commit_answers store = False # later"
      with Inr m d show ?thesis
        by (simp add: calculate_commit_fails)
    qed
  qed
qed

text \<open>The theorem at the names \<^verbatim>\<open>turbo\<close> and the empty string.\<close>

theorem unknown_strategy_falls_back_witness:
  "''turbo'' \<notin> {''default'', ''aggressive'', ''conservative''} \<and>
   '''' \<notin> {''default'', ''aggressive'', ''conservative''} \<and>
   fst (calculate example_request ''default'' empty_database) =
     Inr \<lparr>q_product_id = ''SKU-1'', q_dynamic_price = 13.65, q_base_price = 13.0,
          q_strategy = ''default''\<rparr> \<and>
   fst (calculate example_request ''turbo'' empty_database) =
     fst (calculate example_request ''default'' empty_database) \<and>
   fst (calculate example_request '''' empty_database) =
     fst (calculate example_request ''default'' empty_database) \<and>
   h_strategy_used
     (last (pricing_history (snd (calculate example_request ''turbo'' empty_database))))
     = ''turbo'' \<and>
   h_strategy_used
     (last (pricing_history (snd (calculate example_request '''' empty_database))))
     = ''''"
proof -
  have d: "fst (calculate example_request ''default'' empty_database) =
     Inr \<lparr>q_product_id = ''SKU-1'', q_dynamic_price = 13.65, q_base_price = 13.0,
          q_strategy = ''default''\<rparr>"
    by (simp add: calculate_def calculation_method_def price_adjustment_strategies_def
          example_default_quote db_commit_def db_add_def SessionLocal_def empty_database_def
          Let_def)
  have t: "''turbo'' \<notin> {''default'', ''aggressive'', ''conservative''}" by simp
  have e: "'''' \<notin> {''default'', ''aggressive'', ''conservative''}" by simp
  show ?thesis
    using d unknown_strategy_falls_back [OF t, of example_request empty_database]
          unknown_strategy_falls_back [OF e, of example_request empty_database]
    by (simp add: new_history_def)
qed

text \<open>
  C5. The default calculator raises \<open>ZeroDivisionError\<close> exactly when the competitor price
  is zero. In that case \<open>calculate\<close>, under any strategy name that selects the default
  calculator, hands the error to its caller and leaves the database as it was: no row is
  appended and no commit is attempted.
\<close>

theorem default_zero_division:
  "(calculate_default_price req = Inl ZeroDivisionError \<longleftrightarrow> competitor_price req = 0) \<and>
   (competitor_price req = 0 \<and> strategy \<notin> {''aggressive'', ''conservative''}
      \<longrightarrow> calculate req strategy store = (Inl ZeroDivisionError, store))"
proof (intro conjI impI)
  show "calculate_default_price req = Inl ZeroDivisionError \<longleftrightarrow> competitor_price req = 0"
    by (rule default_zero_iff)
next
  assume h: "competitor_price req = 0 \<and> strategy \<notin> {''aggressive'', ''conservative''}"
  then have "calculation_method strategy req = Inl ZeroDivisionError"
    using default_zero_iff [of req] by (simp add: calculation_method_not_others)
  then show "calculate req strategy store = (Inl ZeroDivisionError, store)"
    by (rule calculate_error)
qed

text \<open>The theorem at a zero and at a non-zero competitor price.\<close>

theorem default_zero_division_witness:
  "competitor_price zero_competitor_request = 0 \<and>
   calculate_default_price zero_competitor_request = Inl ZeroDivisionError \<and>
   calculate zero_competitor_request ''default'' empty_database
     = (Inl ZeroDivisionError, empty_database) \<and>
   calculate zero_competitor_request ''turbo'' empty_database
     = (Inl ZeroDivisionError, empty_database) \<and>
   competitor_price example_request \<noteq> 0 \<and>
   calculate_default_price example_request \<noteq> Inl ZeroDivisionError"
  using default_zero_division [of zero_competitor_request "''default''" empty_database]
        default_zero_division [of zero_competitor_request "''turbo''" empty_database]
        default_zero_division [of example_request "''default''" empty_database]
  by (simp add: zero_competitor_request_def example_request_def)

text \<open>
  C6. When the calculator has produced a quote and the storage engine rejects the commit,
  \<open>calculate\<close> hands \<open>StorageWriteFailure\<close> to its caller in place of the quote, the
  committed history is what it was before the call, and exactly one answer of the storage
  engine has been used: the commit is not tried again, whatever the later answers are.
\<close>

theorem storage_failure_propagates:
  assumes "commit_answers store = False # later"
    and "calculation_method strategy req = Inr price_data"
  shows "calculate req strategy store =
           (Inl StorageWriteFailure, store\<lparr>commit_answers := later\<rparr>) \<and>
         pricing_history (snd (calculate req strategy store)) = pricing_history store"
  using assms by (simp add: calculate_commit_fails)

text \<open>The theorem with a storage engine that would accept a second attempt.\<close>

theorem storage_failure_propagates_witness:
  "commit_answers (empty_database\<lparr>commit_answers := [False, True]\<rparr>) = False # [True] \<and>
   calculation_method ''default'' example_request =
     Inr \<lparr>q_product_id = ''SKU-1'', q_dynamic_price = 13.65, q_base_price = 13.0,
          q_strategy = ''default''\<rparr> \<and>
   calculate example_request ''default'' (empty_database\<lparr>commit_answers := [False, True]\<rparr>)
     = (Inl StorageWriteFailure, empty_database\<lparr>commit_answers := [True]\<rparr>)"
proof -
  have a: "commit_answers (empty_database\<lparr>commit_answers := [False, True]\<rparr>) = False # [True]"
    by simp
  have m: "calculation_method ''default'' example_request =
     Inr \<lparr>q_product_id = ''SKU-1'', q_dynamic_price = 13.65, q_base_price = 13.0,
          q_strategy = ''default''\<rparr>"
    by (simp add: calculation_method_def price_adjustment_strategies_def example_default_quote)
  show ?thesis
    using a m storage_failure_propagates [OF a m] by simp
qed

text \<open>
  C9. When \<open>calculate\<close> returns a quote, the history afterwards is the history before
  followed by exactly one new row, the one built from the request, the quote and the
  requested name, and one commit has been made. In every outcome the rows present before
  the call are still there, unchanged and in place, as the leading part of the history.
\<close>

theorem calculate_appends_one:
  "(\<forall>q. fst (calculate req strategy store) = Inr q \<longrightarrow>
        pricing_history (snd (calculate req strategy store)) =
          pricing_history store @ [new_history req q strategy] \<and>
        commit_answers (snd (calculate req strategy store)) = tl (commit_answers store)) \<and>
   take (length (pricing_history store)) (pricing_history (snd (calculate req strategy store)))
     = pricing_history store"
proof (cases "calculation_method strategy req")
  case (Inl e)
  then show ?thesis by (simp add: calculate_error)
next
  case (Inr pd)
  from commit_answers_cases [of store] show ?thesis
  proof (elim disjE exE)
    assume "commit_answers store = []"
    with Inr show ?thesis by (simp add: calculate_commit_ok)
  next
    fix later assume "commit_answers store = True # later"
    with Inr show ?thesis by (simp add: calculate_commit_ok)
  next
    fix later assume "commit_answers store = False # later"
    with Inr show ?thesis by (simp add: calculate_commit_fails)
  qed
qed

text \<open>The theorem at the aggressive strategy on the example request.\<close>

theorem calculate_appends_one_witness:
  "fst (calculate example_request ''aggressive'' empty_database) =
     Inr \<lparr>q_product_id = ''SKU-1'', q_dynamic_price = 15.4, q_base_price = 14.0,
          q_strategy = ''aggressive''\<rparr> \<and>
   pricing_history (snd (calculate example_request ''aggressive'' empty_database)) =
     [\<lparr>h_product_id = ''SKU-1'', h_original_price = 14.0, h_dynamic_price = 15.4,
       h_demand_score = 5, h_inventory = 50, h_competitor_price = 20,
       h_strategy_used = ''aggressive'', h_conversion_rate = 0, h_revenue_generated = 0\<rparr>]"
proof -
  have e: "fst (calculate example_request ''aggressive'' empty_database) =
     Inr \<lparr>q_product_id = ''SKU-1'', q_dynamic_price = 15.4, q_base_price = 14.0,
          q_strategy = ''aggressive''\<rparr>"
    by (simp add: calculate_def calculation_method_def price_adjustment_strategies_def
          example_aggressive_quote db_commit_def db_add_def SessionLocal_def
          empty_database_def Let_def)
  show ?thesis
    using e calculate_appends_one [of example_request "''aggressive''" empty_database]
    by (simp add: new_history_def example_request_def empty_database_def)
qed

text \<open>
  C10. The aggressive and the conservative calculator return a quote on every request,
  a competitor price of zero included; with a competitor price of zero the default
  calculator raises \<open>ZeroDivisionError\<close>.
\<close>

theorem aggressive_conservative_total:
  "(\<exists>q. calculate_aggressive_price req = Inr q) \<and>
   (\<exists>q. calculate_conservative_price req = Inr q) \<and>
   (competitor_price req = 0 \<longrightarrow> calculate_default_price req = Inl ZeroDivisionError)"
proof (intro conjI impI)
  show "\<exists>q. calculate_aggressive_price req = Inr q"
    by (simp add: calculate_aggressive_price_def factor_two_thresholds Let_def
          split del: if_split)
  show "\<exists>q. calculate_conservative_price req = Inr q"
    by (simp add: calculate_conservative_price_def factor_two_thresholds Let_def
          split del: if_split)
  assume "competitor_price req = 0"
  then show "calculate_default_price req = Inl ZeroDivisionError"
    by (simp add: default_zero_iff)
qed

text \<open>The theorem at the example request with its competitor price set to zero.\<close>

theorem aggressive_conservative_total_witness:
  "competitor_price zero_competitor_request = 0 \<and>
   (\<exists>q. calculate_aggressive_price zero_competitor_request = Inr q) \<and>
   (\<exists>q. calculate_conservative_price zero_competitor_request = Inr q) \<and>
   calculate_default_price zero_competitor_request = Inl ZeroDivisionError"
  using aggressive_conservative_total [of zero_competitor_request]
  by (simp add: zero_competitor_request_def)

end
